theory Spec2Isabelle
  imports Main "HOL-Library.Sublist" "HOL-Library.Word"
begin

section \<open>Python values and exceptions\<close>

text \<open>
  The objects \<open>json.loads\<close> produces, and the values found in message contents and tool-call
  dictionaries: \<open>None\<close>, booleans, integers, strings, lists and dictionaries. A dictionary is
  an association list in insertion order with distinct keys. Floating-point numbers do not
  occur in anything the module computes with and are left out.
\<close>

datatype pyval =
    PNone
  | PBool bool
  | PInt int
  | PStr string
  | PList "pyval list"
  | PDict "(string \<times> pyval) list"

text \<open>The exceptions that the modelled code paths can raise.\<close>

datatype error =
    JSONDecodeError
  | KeyError string
  | TypeError
  | ValueError
  | ValidationError
  | IndexError
  | SchemaError
  | SessionError string

text \<open>
  \<open>datetime\<close> values, in microseconds since the library's epoch. \<open>datetime.now()\<close> is
  naive; \<open>datetime.fromisoformat\<close> yields an aware value when the text carries a UTC
  offset, and subtracting an aware value from a naive one raises \<open>TypeError\<close>.
\<close>

datatype datetime = Naive int | Aware int

fun datetime_sub :: "int \<Rightarrow> datetime \<Rightarrow> error + int" where
  "datetime_sub now (Naive t) = Inr (now - t)"
| "datetime_sub now (Aware t) = Inl TypeError"

definition timedelta_hours :: "int \<Rightarrow> int" where
  "timedelta_hours h = h * 3600 * 1000000"

text \<open>\<open>d[k]\<close> on a value loaded from JSON, for a string key \<open>k\<close>.\<close>

fun subscript :: "pyval \<Rightarrow> string \<Rightarrow> error + pyval" where
  "subscript (PDict kvs) k = (case map_of kvs k of None \<Rightarrow> Inl (KeyError k) | Some v \<Rightarrow> Inr v)"
| "subscript _ k = Inl TypeError"

text \<open>
  The elements a \<open>for\<close> loop (or comprehension) visits: the items of a list, the keys of a
  dictionary, the characters of a string; anything else is not iterable.
\<close>

fun iterate :: "pyval \<Rightarrow> error + pyval list" where
  "iterate (PList xs) = Inr xs"
| "iterate (PDict kvs) = Inr (map (\<lambda>kv. PStr (fst kv)) kvs)"
| "iterate (PStr s) = Inr (map (\<lambda>c. PStr [c]) s)"
| "iterate _ = Inl TypeError"

text \<open>Truthiness, as \<open>if x:\<close> tests it.\<close>

fun truthy :: "pyval \<Rightarrow> bool" where
  "truthy PNone = False"
| "truthy (PBool b) = b"
| "truthy (PInt i) = (i \<noteq> 0)"
| "truthy (PStr s) = (s \<noteq> [])"
| "truthy (PList xs) = (xs \<noteq> [])"
| "truthy (PDict kvs) = (kvs \<noteq> [])"

section \<open>Data model\<close>

record StdioServerParameters =
  command :: string
  args :: "string list"
  env :: "(string \<times> string) list"

record Tool =
  name :: string
  description :: "string option"
  inputSchema :: pyval

text \<open>
  What the module imports and talks to, taken as parameters: the \<open>json\<close> codec, the ISO-8601
  codec of \<open>datetime\<close>, the constructor and the dump of \<open>mcp.types.Tool\<close>,
  \<open>jsonschema_to_pydantic\<close> (the input model it builds is of type \<open>'m\<close>), and what a tool
  server answers when a session to it enumerates its tools.
\<close>

record 'm externals =
  json_loads :: "string \<Rightarrow> error + pyval"
  json_dumps :: "pyval \<Rightarrow> string"
  fromisoformat :: "string \<Rightarrow> error + datetime"
  isoformat :: "int \<Rightarrow> string"
  Tool_init :: "(string \<times> pyval) list \<Rightarrow> error + Tool"
  model_dump :: "Tool \<Rightarrow> (string \<times> pyval) list"
  jsonschema_to_pydantic :: "pyval \<Rightarrow> error + 'm"
  list_tools :: "StdioServerParameters \<Rightarrow> error + Tool list"

section \<open>Tool cache\<close>

definition CACHE_EXPIRY_HOURS :: int where
  "CACHE_EXPIRY_HOURS = 24"

text \<open>\<open>sep.join(xs)\<close>\<close>

fun join :: "string \<Rightarrow> string list \<Rightarrow> string" where
  "join sep [] = []"
| "join sep [x] = x"
| "join sep (x # y # ys) = x @ sep @ join sep (y # ys)"

text \<open>
  \<open>s.replace("/", "-")\<close>. Both characters are ASCII, and no byte of a multi-byte UTF-8
  sequence equals either, so replacing bytes replaces exactly the code points.
\<close>

definition replace_slash :: "string \<Rightarrow> string" where
  "replace_slash s = map (\<lambda>c. if c = CHR ''/'' then CHR ''-'' else c) s"

text \<open>\<open>f"{server_param.command}-{'-'.join(server_param.args)}".replace("/", "-")\<close>\<close>

definition cache_key :: "StdioServerParameters \<Rightarrow> string" where
  "cache_key server_param =
     replace_slash (command server_param @ ''-'' @ join ''-'' (args server_param))"

text \<open>The name of the cache file inside \<open>CACHE_DIR\<close>.\<close>

definition cache_file :: "StdioServerParameters \<Rightarrow> string" where
  "cache_file server_param = cache_key server_param @ ''.json''"

text \<open>
  The cache directory maps a file name to the text of the file; a name outside the domain
  does not exist. \<open>Tool(**tool)\<close> needs a dictionary.
\<close>

type_synonym cache_dir = "string \<rightharpoonup> string"

fun Tool_of :: "'m externals \<Rightarrow> pyval \<Rightarrow> error + Tool" where
  "Tool_of X (PDict kvs) = Tool_init X kvs"
| "Tool_of X _ = Inl TypeError"

text \<open>A comprehension \<open>[f(x) for x in xs]\<close> whose \<open>f\<close> may raise: the first exception ends it.\<close>

fun comprehension :: "('a \<Rightarrow> error + 'b) \<Rightarrow> 'a list \<Rightarrow> error + 'b list" where
  "comprehension f [] = Inr []"
| "comprehension f (x # xs) =
     (case f x of
        Inl e \<Rightarrow> Inl e
      | Inr y \<Rightarrow> (case comprehension f xs of Inl e \<Rightarrow> Inl e | Inr ys \<Rightarrow> Inr (y # ys)))"

text \<open>\<open>datetime.fromisoformat(v)\<close> on a loaded value.\<close>

fun fromisoformat_of :: "'m externals \<Rightarrow> pyval \<Rightarrow> error + datetime" where
  "fromisoformat_of X (PStr s) = fromisoformat X s"
| "fromisoformat_of X _ = Inl TypeError"

text \<open>
  \<open>get_cached_tools\<close>; \<open>now\<close> is what \<open>datetime.now()\<close> returns at the call. \<open>Inr None\<close> is
  the return value \<open>None\<close>, \<open>Inl e\<close> an exception that leaves the function. (It first
  creates the cache directory if there is none; \<open>dir\<close> is the content of that directory.)
\<close>

definition get_cached_tools ::
  "'m externals \<Rightarrow> cache_dir \<Rightarrow> int \<Rightarrow> StdioServerParameters \<Rightarrow> error + Tool list option" where
  "get_cached_tools X dir now server_param =
     (case dir (cache_file server_param) of
        None \<Rightarrow> Inr None
      | Some text \<Rightarrow>
         (case json_loads X text of
            Inl e \<Rightarrow> Inl e
          | Inr cache_data \<Rightarrow>
             (case subscript cache_data ''cached_at'' of
                Inl e \<Rightarrow> Inl e
              | Inr v \<Rightarrow>
                 (case fromisoformat_of X v of
                    Inl e \<Rightarrow> Inl e
                  | Inr cached_time \<Rightarrow>
                     (case datetime_sub now cached_time of
                        Inl e \<Rightarrow> Inl e
                      | Inr age \<Rightarrow>
                         if age > timedelta_hours CACHE_EXPIRY_HOURS then Inr None
                         else
                           (case subscript cache_data ''tools'' of
                              Inl e \<Rightarrow> Inl e
                            | Inr ts \<Rightarrow>
                               (case iterate ts of
                                  Inl e \<Rightarrow> Inl e
                                | Inr items \<Rightarrow>
                                   (case comprehension (Tool_of X) items of
                                      Inl e \<Rightarrow> Inl e
                                    | Inr tools \<Rightarrow> Inr (Some tools)))))))))"

text \<open>The document \<open>save_tools_cache\<close> serialises.\<close>

definition cache_data_of :: "'m externals \<Rightarrow> int \<Rightarrow> Tool list \<Rightarrow> pyval" where
  "cache_data_of X now tools =
     PDict [(''cached_at'', PStr (isoformat X now)),
            (''tools'', PList (map (\<lambda>tool. PDict (model_dump X tool)) tools))]"

definition save_tools_cache ::
  "'m externals \<Rightarrow> cache_dir \<Rightarrow> int \<Rightarrow> StdioServerParameters \<Rightarrow> Tool list \<Rightarrow> cache_dir" where
  "save_tools_cache X dir now server_param tools =
     dir(cache_file server_param \<mapsto> json_dumps X (cache_data_of X now tools))"

section \<open>Tool discovery\<close>

text \<open>
  The \<open>McpTool\<close> instance \<open>create_langchain_tool\<close> builds (its fields \<open>name\<close> and
  \<open>description\<close> carry a prefix here, the schema record has them already).
\<close>

record 'm McpTool =
  mcp_name :: string
  mcp_description :: "string option"
  args_schema :: 'm
  mcp_server_params :: StdioServerParameters

definition create_langchain_tool ::
  "'m externals \<Rightarrow> Tool \<Rightarrow> StdioServerParameters \<Rightarrow> error + 'm McpTool" where
  "create_langchain_tool X tool_schema server_params =
     (case jsonschema_to_pydantic X (inputSchema tool_schema) of
        Inl e \<Rightarrow> Inl e
      | Inr input_model \<Rightarrow>
          Inr \<lparr>mcp_name = name tool_schema, mcp_description = description tool_schema,
               args_schema = input_model, mcp_server_params = server_params\<rparr>)"

text \<open>
  What discovery reads and changes: the cache directory, and the live sessions opened so
  far, one entry for each \<open>stdio_client(server_param)\<close> entered, in order. (The progress
  line printed inside a live session is not modelled.)
\<close>

record world =
  cache :: cache_dir
  sessions :: "StdioServerParameters list"

text \<open>\<open>if cached_tools:\<close> on the optional list.\<close>

fun cached_truthy :: "Tool list option \<Rightarrow> bool" where
  "cached_truthy None = False"
| "cached_truthy (Some []) = False"
| "cached_truthy (Some (t # ts)) = True"

text \<open>
  The body of the loop of \<open>convert_mcp_to_langchain_tools\<close> for one \<open>server_param\<close>: the
  tools to append, or the exception that ends the loop, and the world afterwards. \<open>instants\<close>
  holds what \<open>datetime.now()\<close> returns in the cache read and in the cache write of this
  iteration.
\<close>

definition discover_server ::
  "'m externals \<Rightarrow> int \<times> int \<Rightarrow> world \<Rightarrow> StdioServerParameters \<Rightarrow>
     (error + 'm McpTool list) \<times> world" where
  "discover_server X instants w server_param =
     (case get_cached_tools X (cache w) (fst instants) server_param of
        Inl e \<Rightarrow> (Inl e, w)
      | Inr cached_tools \<Rightarrow>
          if cached_truthy cached_tools then
            (comprehension (\<lambda>tool. create_langchain_tool X tool server_param)
               (case cached_tools of Some ts \<Rightarrow> ts | None \<Rightarrow> []), w)
          else
            (let w1 = w\<lparr>sessions := sessions w @ [server_param]\<rparr> in
             case list_tools X server_param of
               Inl e \<Rightarrow> (Inl e, w1)
             | Inr tools \<Rightarrow>
                 (let w2 = w1\<lparr>cache := save_tools_cache X (cache w1) (snd instants) server_param tools\<rparr>
                  in (comprehension (\<lambda>tool. create_langchain_tool X tool server_param) tools, w2))))"

fun convert_loop ::
  "'m externals \<Rightarrow> (nat \<Rightarrow> int \<times> int) \<Rightarrow> nat \<Rightarrow> world \<Rightarrow> 'm McpTool list \<Rightarrow>
     StdioServerParameters list \<Rightarrow> (error + 'm McpTool list) \<times> world" where
  "convert_loop X clock i w langchain_tools [] = (Inr langchain_tools, w)"
| "convert_loop X clock i w langchain_tools (server_param # rest) =
     (case discover_server X (clock i) w server_param of
        (Inl e, w') \<Rightarrow> (Inl e, w')
      | (Inr ts, w') \<Rightarrow> convert_loop X clock (Suc i) w' (langchain_tools @ ts) rest)"

text \<open>\<open>clock i\<close> gives the two instants of the iteration for the \<open>i\<close>-th server.\<close>

definition convert_mcp_to_langchain_tools ::
  "'m externals \<Rightarrow> (nat \<Rightarrow> int \<times> int) \<Rightarrow> world \<Rightarrow> StdioServerParameters list \<Rightarrow>
     (error + 'm McpTool list) \<times> world" where
  "convert_mcp_to_langchain_tools X clock w server_params = convert_loop X clock 0 w [] server_params"

section \<open>Tool invocation\<close>

text \<open>
  One session to a tool server, as \<open>_arun\<close> uses it. Entering \<open>stdio_client\<close> and entering
  \<open>ClientSession\<close> may raise, so may the handshake and the call; a call that returns gives a
  result with \<open>isError\<close> and \<open>content\<close>. An exception that leaves the body of an
  \<open>async with\<close> block passes through the exit of its context manager, which decides what
  leaves the block: \<open>exit_session\<close> for \<open>ClientSession\<close>, \<open>exit_stdio\<close> for
  \<open>stdio_client\<close> (both run their tasks in a task group, and a task group may re-raise
  what left its body inside an exception group). \<open>'a\<close> is the type of the keyword
  arguments, \<open>'c\<close> of the content.
\<close>

record 'c CallToolResult =
  isError :: bool
  content :: 'c

text \<open>
  What leaves \<open>_arun\<close> as an exception: the \<open>ToolException\<close> it raises, an exception of
  the session, or an exception group holding such exceptions.
\<close>

datatype 'c raised = ToolException 'c | Propagated error | ExceptionGroup "'c raised list"

record ('a, 'c) tool_server =
  enter_stdio :: "StdioServerParameters \<Rightarrow> error option"
  enter_session :: "StdioServerParameters \<Rightarrow> error option"
  initialize :: "StdioServerParameters \<Rightarrow> error option"
  call_tool :: "StdioServerParameters \<Rightarrow> string \<Rightarrow> 'a \<Rightarrow> error + 'c CallToolResult"
  exit_session :: "'c raised \<Rightarrow> 'c raised"
  exit_stdio :: "'c raised \<Rightarrow> 'c raised"

datatype 'a session_event =
    Entered StdioServerParameters
  | Initialized
  | Called string 'a
  | Exited

text \<open>The events that are calls of a tool.\<close>

fun is_call :: "'a session_event \<Rightarrow> bool" where
  "is_call (Called n kw) = True"
| "is_call _ = False"

text \<open>\<open>McpTool._arun(**kwargs)\<close>: the outcome and what was done to the server, in order.\<close>

definition arun ::
  "('a, 'c) tool_server \<Rightarrow> 'm McpTool \<Rightarrow> 'a \<Rightarrow> ('c raised + 'c) \<times> 'a session_event list" where
  "arun S self kwargs =
     (case enter_stdio S (mcp_server_params self) of
        Some e \<Rightarrow> (Inl (Propagated e), [Entered (mcp_server_params self)])
      | None \<Rightarrow>
         (case enter_session S (mcp_server_params self) of
            Some e \<Rightarrow>
              (Inl (exit_stdio S (Propagated e)), [Entered (mcp_server_params self), Exited])
          | None \<Rightarrow>
             (case initialize S (mcp_server_params self) of
                Some e \<Rightarrow>
                  (Inl (exit_stdio S (exit_session S (Propagated e))),
                   [Entered (mcp_server_params self), Initialized, Exited])
              | None \<Rightarrow>
                 (case call_tool S (mcp_server_params self) (mcp_name self) kwargs of
                    Inl e \<Rightarrow>
                      (Inl (exit_stdio S (exit_session S (Propagated e))),
                       [Entered (mcp_server_params self), Initialized,
                        Called (mcp_name self) kwargs, Exited])
                  | Inr result \<Rightarrow>
                      (if isError result
                       then Inl (exit_stdio S (exit_session S (ToolException (content result))))
                       else Inr (content result),
                       [Entered (mcp_server_params self), Initialized,
                        Called (mcp_name self) kwargs, Exited])))))"

section \<open>Conversation thread store\<close>

text \<open>
  The table \<open>last_conversation\<close> of the database file: \<open>None\<close> while it has not been
  created, else its rows \<open>(id, thread_id)\<close> in rowid order. A connection sees its own
  uncommitted changes (\<open>working\<close>); \<open>commit\<close> makes them the file's content, closing the
  connection drops what is uncommitted.
\<close>

type_synonym row = "int \<times> string"
type_synonym database = "row list option"

record connection =
  committed :: database
  working :: database

datatype dberror = OperationalError

definition connect :: "database \<Rightarrow> connection" where
  "connect d = \<lparr>committed = d, working = d\<rparr>"

definition commit :: "connection \<Rightarrow> connection" where
  "commit db = db\<lparr>committed := working db\<rparr>"

definition close :: "connection \<Rightarrow> database" where
  "close db = committed db"

text \<open>The rows of the database file; none while the table does not exist.\<close>

definition rows_of :: "database \<Rightarrow> row list" where
  "rows_of d = (case d of None \<Rightarrow> [] | Some rows \<Rightarrow> rows)"

text \<open>\<open>CREATE TABLE IF NOT EXISTS last_conversation (...)\<close>\<close>

definition create_table_if_not_exists :: "connection \<Rightarrow> connection" where
  "create_table_if_not_exists db =
     db\<lparr>working := Some (case working db of None \<Rightarrow> [] | Some rows \<Rightarrow> rows)\<rparr>"

text \<open>\<open>SELECT thread_id FROM last_conversation LIMIT 1\<close>, then \<open>fetchone()\<close>\<close>

definition select_thread_id :: "connection \<Rightarrow> dberror + string option" where
  "select_thread_id db =
     (case working db of
        None \<Rightarrow> Inl OperationalError
      | Some rows \<Rightarrow> Inr (case rows of [] \<Rightarrow> None | r # _ \<Rightarrow> Some (snd r)))"

text \<open>\<open>DELETE FROM last_conversation\<close>\<close>

definition delete_all :: "connection \<Rightarrow> dberror + connection" where
  "delete_all db =
     (case working db of
        None \<Rightarrow> Inl OperationalError
      | Some rows \<Rightarrow> Inr (db\<lparr>working := Some []\<rparr>))"

text \<open>
  \<open>INSERT INTO last_conversation (thread_id) VALUES (?)\<close>: the integer primary key is the
  largest one in the table plus one, 1 in an empty table.
\<close>

definition next_id :: "row list \<Rightarrow> int" where
  "next_id rows = fold max (map fst rows) 0 + 1"

definition insert_thread_id :: "string \<Rightarrow> connection \<Rightarrow> dberror + connection" where
  "insert_thread_id thread_id db =
     (case working db of
        None \<Rightarrow> Inl OperationalError
      | Some rows \<Rightarrow> Inr (db\<lparr>working := Some (rows @ [(next_id rows, thread_id)])\<rparr>))"

text \<open>\<open>ConversationManager._init_db\<close>\<close>

definition init_db :: "connection \<Rightarrow> connection" where
  "init_db db = commit (create_table_if_not_exists db)"

text \<open>
  \<open>uuid.uuid4().hex\<close>: the 32 lower-case hexadecimal digits of the UUID's 128-bit value,
  most significant first. The value drawn is an argument of \<open>get_last_id\<close>.
\<close>

definition hexdigit :: "nat \<Rightarrow> char" where
  "hexdigit n = ''0123456789abcdef'' ! n"

text \<open>The \<open>j\<close>-th hexadecimal digit of a 128-bit value, counted from the least significant.\<close>

definition nibble :: "128 word \<Rightarrow> nat \<Rightarrow> nat" where
  "nibble u j = unat (drop_bit (4 * j) u) mod 16"

definition uuid_hex :: "128 word \<Rightarrow> string" where
  "uuid_hex u = map (\<lambda>i. hexdigit (unat (drop_bit (4 * (31 - i)) u) mod 16)) [0..<32]"

text \<open>
  \<open>ConversationManager.get_last_id\<close> on the database file \<open>d\<close>: the value returned and the
  file afterwards.
\<close>

definition get_last_id :: "database \<Rightarrow> 128 word \<Rightarrow> (dberror + string) \<times> database" where
  "get_last_id d uuid4 =
     (let db = init_db (connect d) in
      case select_thread_id db of
        Inl e \<Rightarrow> (Inl e, close db)
      | Inr row \<Rightarrow>
          (Inr (case row of Some thread_id \<Rightarrow> thread_id | None \<Rightarrow> uuid_hex uuid4), close db))"

text \<open>\<open>ConversationManager._save_id\<close> on an open connection.\<close>

definition internal_save_id :: "connection \<Rightarrow> string \<Rightarrow> dberror + connection" where
  "internal_save_id db thread_id =
     (case delete_all (init_db db) of
        Inl e \<Rightarrow> Inl e
      | Inr db1 \<Rightarrow>
         (case insert_thread_id thread_id db1 of
            Inl e \<Rightarrow> Inl e
          | Inr db2 \<Rightarrow> Inr (commit db2)))"

text \<open>
  \<open>ConversationManager.save_id\<close>: with \<open>db = None\<close> it opens a connection of its own and
  closes it; else it works on the connection given.
\<close>

definition save_id :: "database \<Rightarrow> string \<Rightarrow> dberror option \<times> database" where
  "save_id d thread_id =
     (case internal_save_id (connect d) thread_id of
        Inl e \<Rightarrow> (Some e, close (init_db (connect d)))
      | Inr db \<Rightarrow> (None, close db))"

definition save_id_on :: "connection \<Rightarrow> string \<Rightarrow> dberror + connection" where
  "save_id_on db thread_id = internal_save_id db thread_id"

section \<open>Response renderer\<close>

text \<open>
  What the loop over \<open>agent_executor.astream(...)\<close> inspects of a chunk. A tool call is a
  dictionary. The content of a message is a string or a list of blocks. \<open>AIMessageChunk\<close>
  is a subclass of \<open>AIMessage\<close>; every other message class is \<open>OtherMessage\<close>.
\<close>

type_synonym tool_call = "(string \<times> pyval) list"

datatype message_content = StrContent string | ListContent "pyval list"

datatype message =
    AIMessageChunk message_content "tool_call list"
  | AIMessage message_content "tool_call list"
  | OtherMessage

text \<open>
  \<open>MessagesChunk m\<close> is the tuple \<open>("messages", (m, metadata))\<close>, \<open>ValuesChunk ms\<close> the tuple
  \<open>("values", state)\<close> with \<open>state["messages"] = ms\<close>, \<open>DictChunk ks\<close> a dictionary with the
  keys \<open>ks\<close>, \<open>OtherChunk\<close> anything else. With \<open>stream_mode\<close> given as the list
  \<open>["messages", "values"]\<close>, as the loop calls it, \<open>astream\<close> yields the two tuples only.
\<close>

datatype chunk =
    MessagesChunk message
  | ValuesChunk "message list"
  | DictChunk "string list"
  | OtherChunk

text \<open>
  \<open>str(v)\<close>, as \<open>print\<close> and f-strings apply it: a string is itself; how any other value
  is written is the parameter \<open>S\<close>.
\<close>

fun to_str :: "(pyval \<Rightarrow> string) \<Rightarrow> pyval \<Rightarrow> string" where
  "to_str S (PStr s) = s"
| "to_str S v = S v"

text \<open>\<open>d.get(k)\<close> and \<open>d.get(k, default)\<close>\<close>

definition dict_get :: "(string \<times> pyval) list \<Rightarrow> string \<Rightarrow> pyval \<Rightarrow> pyval" where
  "dict_get d k dflt = (case map_of d k of None \<Rightarrow> dflt | Some v \<Rightarrow> v)"

text \<open>The lines appended for the arguments of a tool call.\<close>

fun args_lines :: "(pyval \<Rightarrow> string) \<Rightarrow> pyval \<Rightarrow> string list" where
  "args_lines S (PStr a) = [''    '' @ a]"
| "args_lines S (PDict kvs) = map (\<lambda>kv. ''    '' @ fst kv @ '': '' @ to_str S (snd kv)) kvs"
| "args_lines S _ = []"

text \<open>The list \<open>lines\<close> built for one tool call \<open>tc\<close>.\<close>

definition tool_call_lines :: "(pyval \<Rightarrow> string) \<Rightarrow> tool_call \<Rightarrow> string list" where
  "tool_call_lines S tc =
     [''  '' @ to_str S (dict_get tc ''name'' (PStr ''Tool''))]
     @ (if truthy (dict_get tc ''error'' PNone)
        then [''  Error: '' @ to_str S (dict_get tc ''error'' PNone)] else [])
     @ [''  Args:'']
     @ args_lines S (dict_get tc ''args'' PNone)"

text \<open>\<open>isinstance(message, AIMessage)\<close>, with the message's \<open>tool_calls\<close>.\<close>

fun ai_tool_calls :: "message \<Rightarrow> tool_call list option" where
  "ai_tool_calls (AIMessageChunk c tcs) = Some tcs"
| "ai_tool_calls (AIMessage c tcs) = Some tcs"
| "ai_tool_calls OtherMessage = None"

text \<open>What a message chunk's content makes the loop print.\<close>

fun content_prints :: "(pyval \<Rightarrow> string) \<Rightarrow> message_content \<Rightarrow> string list" where
  "content_prints S (StrContent s) = [s]"
| "content_prints S (ListContent (PDict d # rest)) =
     (case map_of d ''text'' of None \<Rightarrow> [] | Some v \<Rightarrow> [to_str S v])"
| "content_prints S (ListContent _) = []"

text \<open>
  The body of the loop for one chunk: the texts written to standard output, one per
  \<open>print\<close> call and with the line end \<open>print\<close> adds, or the exception raised.
\<close>

fun render_chunk :: "(pyval \<Rightarrow> string) \<Rightarrow> chunk \<Rightarrow> error + string list" where
  "render_chunk S (MessagesChunk (AIMessageChunk c tcs)) = Inr (content_prints S c)"
| "render_chunk S (MessagesChunk _) = Inr []"
| "render_chunk S (DictChunk ks) = Inr (if ''messages'' \<in> set ks then [''\<newline>\<newline>''] else [])"
| "render_chunk S (ValuesChunk []) = Inl IndexError"
| "render_chunk S (ValuesChunk (m # ms)) =
     (case ai_tool_calls (last (m # ms)) of
        None \<Rightarrow> Inr []
      | Some tcs \<Rightarrow>
          if tcs \<noteq> [] then
            Inr (''\<newline>\<newline>Tool Calls:\<newline>''
                 # map (\<lambda>tc. join ''\<newline>'' (tool_call_lines S tc) @ ''\<newline>'') tcs)
          else Inr [])"
| "render_chunk S OtherChunk = Inr []"

text \<open>The loop: the output so far, and the exception that ended it, if any.\<close>

fun render_stream ::
  "(pyval \<Rightarrow> string) \<Rightarrow> string list \<Rightarrow> chunk list \<Rightarrow> string list \<times> error option" where
  "render_stream S out [] = (out, None)"
| "render_stream S out (c # cs) =
     (case render_chunk S c of
        Inl e \<Rightarrow> (out, Some e)
      | Inr ps \<Rightarrow> render_stream S (out @ ps) cs)"

text \<open>The loop followed by the final \<open>print()\<close>.\<close>

definition render :: "(pyval \<Rightarrow> string) \<Rightarrow> chunk list \<Rightarrow> string list \<times> error option" where
  "render S chunks =
     (case render_stream S [] chunks of
        (out, None) \<Rightarrow> (out @ [''\<newline>''], None)
      | (out, Some e) \<Rightarrow> (out, Some e))"

section \<open>An example environment\<close>

text \<open>
  Two servers, one advertising a tool and one advertising none, and library functions that
  know the two cache documents involved. They serve as concrete inputs.
\<close>

definition fetch_server :: StdioServerParameters where
  "fetch_server = \<lparr>command = ''uvx'', args = [''mcp-server-fetch''], env = []\<rparr>"

definition quiet_server :: StdioServerParameters where
  "quiet_server = \<lparr>command = ''npx'', args = [''-y'', ''quiet''], env = []\<rparr>"

definition fetch_tool :: Tool where
  "fetch_tool = \<lparr>name = ''fetch'', description = Some ''Fetch a URL'',
                  inputSchema = PDict [(''type'', PStr ''object'')]\<rparr>"

definition example_model_dump :: "Tool \<Rightarrow> (string \<times> pyval) list" where
  "example_model_dump t =
     [(''name'', PStr (name t)),
      (''description'', (case description t of None \<Rightarrow> PNone | Some d \<Rightarrow> PStr d)),
      (''inputSchema'', inputSchema t)]"

definition example_Tool_init :: "(string \<times> pyval) list \<Rightarrow> error + Tool" where
  "example_Tool_init kvs =
     (case (map_of kvs ''name'', map_of kvs ''inputSchema'') of
        (Some (PStr n), Some (PDict sch)) \<Rightarrow>
          (case map_of kvs ''description'' of
             None \<Rightarrow> Inr \<lparr>name = n, description = None, inputSchema = PDict sch\<rparr>
           | Some PNone \<Rightarrow> Inr \<lparr>name = n, description = None, inputSchema = PDict sch\<rparr>
           | Some (PStr d) \<Rightarrow> Inr \<lparr>name = n, description = Some d, inputSchema = PDict sch\<rparr>
           | Some _ \<Rightarrow> Inl ValidationError)
      | _ \<Rightarrow> Inl ValidationError)"

definition fetch_doc :: pyval where
  "fetch_doc = PDict [(''cached_at'', PStr ''2024-01-01T00:00:00''),
                      (''tools'', PList [PDict (example_model_dump fetch_tool)])]"

definition quiet_doc :: pyval where
  "quiet_doc = PDict [(''cached_at'', PStr ''2024-01-01T00:00:00''), (''tools'', PList [])]"

definition fetch_text :: string where
  "fetch_text = ''{cached_at: 2024-01-01T00:00:00, tools: [fetch]}''"

definition quiet_text :: string where
  "quiet_text = ''{cached_at: 2024-01-01T00:00:00, tools: []}''"

definition example_externals :: "unit externals" where
  "example_externals =
     \<lparr>json_loads = (\<lambda>text. if text = fetch_text then Inr fetch_doc
                           else if text = quiet_text then Inr quiet_doc
                           else Inl JSONDecodeError),
      json_dumps = (\<lambda>d. if d = fetch_doc then fetch_text
                         else if d = quiet_doc then quiet_text else ''null''),
      fromisoformat = (\<lambda>s. if s = ''2024-01-01T00:00:00'' then Inr (Naive 0) else Inl ValueError),
      isoformat = (\<lambda>t. if t = 0 then ''2024-01-01T00:00:00'' else ''2024-01-02T00:00:00''),
      Tool_init = example_Tool_init,
      model_dump = example_model_dump,
      jsonschema_to_pydantic = (\<lambda>schema. Inr ()),
      list_tools = (\<lambda>sp. if sp = fetch_server then Inr [fetch_tool] else Inr [])\<rparr>"

text \<open>
  The instants of an example run of discovery: every cache read one hour after the instant
  0, every cache write a microsecond later.
\<close>

definition example_clock :: "nat \<Rightarrow> int \<times> int" where
  "example_clock i = (3600000000, 3600000001)"

text \<open>
  Example worlds before discovery: an empty cache directory; one holding a fresh entry for
  \<open>fetch_server\<close>; one holding a fresh entry for \<open>quiet_server\<close> that lists no tool; and
  two whose only file is not JSON.
\<close>

definition empty_world :: world where
  "empty_world = \<lparr>cache = Map.empty, sessions = []\<rparr>"

definition fetch_world :: world where
  "fetch_world = \<lparr>cache = [cache_file fetch_server \<mapsto> fetch_text], sessions = []\<rparr>"

definition quiet_world :: world where
  "quiet_world = \<lparr>cache = [cache_file quiet_server \<mapsto> quiet_text], sessions = []\<rparr>"



text \<open>
  A tool server that knows the tool \<open>fetch\<close> and reports failure for any other name, and
  two tools bound to it, the second of a name the server no longer has. Each of its two
  context managers re-raises an exception that leaves its body inside an exception group,
  as the task groups of the transport do.
\<close>

definition example_tool_server :: "(pyval, string) tool_server" where
  "example_tool_server =
     \<lparr>enter_stdio = (\<lambda>sp. None),
      enter_session = (\<lambda>sp. None),
      initialize = (\<lambda>sp. None),
      call_tool = (\<lambda>sp n kwargs.
         if n = ''fetch'' then Inr \<lparr>isError = False, content = ''<html>ok</html>''\<rparr>
         else Inr \<lparr>isError = True, content = ''Unknown tool''\<rparr>),
      exit_session = (\<lambda>e. ExceptionGroup [e]),
      exit_stdio = (\<lambda>e. ExceptionGroup [e])\<rparr>"

definition fetch_mcp_tool :: "unit McpTool" where
  "fetch_mcp_tool = \<lparr>mcp_name = ''fetch'', mcp_description = Some ''Fetch a URL'',
                      args_schema = (), mcp_server_params = fetch_server\<rparr>"

definition stale_mcp_tool :: "unit McpTool" where
  "stale_mcp_tool = \<lparr>mcp_name = ''search'', mcp_description = None,
                      args_schema = (), mcp_server_params = fetch_server\<rparr>"

text \<open>A stand-in for \<open>str\<close> on values that are not strings.\<close>

definition example_str :: "pyval \<Rightarrow> string" where
  "example_str v = (case v of PNone \<Rightarrow> ''None'' | PBool b \<Rightarrow> (if b then ''True'' else ''False'') | _ \<Rightarrow> ''<object>'')"

section \<open>Properties of the tool cache\<close>

lemma comprehension_roundtrip:
  "(\<And>x. x \<in> set xs \<Longrightarrow> f (g x) = Inr x) \<Longrightarrow> comprehension f (map g xs) = Inr xs"
  by (induction xs) auto

lemma get_cached_tools_missing:
  "dir (cache_file sp) = None \<Longrightarrow> get_cached_tools X dir now sp = Inr None"
  by (simp add: get_cached_tools_def)

text \<open>Reading a well-formed entry whose timestamp is naive.\<close>

lemma get_cached_tools_entry:
  assumes "dir (cache_file sp) = Some text"
    and "json_loads X text = Inr (PDict [(''cached_at'', PStr s), (''tools'', PList items)])"
    and "fromisoformat X s = Inr (Naive t)"
    and "comprehension (Tool_of X) items = Inr tools"
  shows "get_cached_tools X dir now sp =
           Inr (if now - t \<le> timedelta_hours CACHE_EXPIRY_HOURS then Some tools else None)"
  using assms by (simp add: get_cached_tools_def)

text \<open>
  Reading what \<open>save_tools_cache\<close> wrote, where the libraries' codecs invert each other on
  the values written.
\<close>

lemma get_after_save:
  assumes "json_loads X (json_dumps X (cache_data_of X T tools)) = Inr (cache_data_of X T tools)"
    and "fromisoformat X (isoformat X T) = Inr (Naive T)"
    and "\<forall>t\<in>set tools. Tool_init X (model_dump X t) = Inr t"
  shows "get_cached_tools X (save_tools_cache X dir T sp tools) now sp =
           Inr (if now - T \<le> timedelta_hours CACHE_EXPIRY_HOURS then Some tools else None)"
proof -
  have items: "comprehension (Tool_of X) (map (\<lambda>tool. PDict (model_dump X tool)) tools) = Inr tools"
    using assms(3) by (intro comprehension_roundtrip) simp
  have written: "save_tools_cache X dir T sp tools (cache_file sp)
                = Some (json_dumps X (cache_data_of X T tools))"
    by (simp add: save_tools_cache_def)
  have loaded: "json_loads X (json_dumps X (cache_data_of X T tools))
                  = Inr (PDict [(''cached_at'', PStr (isoformat X T)),
                       (''tools'', PList (map (\<lambda>tool. PDict (model_dump X tool)) tools))])"
    using assms(1) by (simp add: cache_data_of_def)
  show ?thesis
    using written loaded assms(2) items by (rule get_cached_tools_entry)
qed

lemma example_roundtrip:
  "example_Tool_init (example_model_dump fetch_tool) = Inr fetch_tool"
  by (simp add: example_Tool_init_def example_model_dump_def fetch_tool_def)

lemma example_cache_data: "cache_data_of example_externals 0 [fetch_tool] = fetch_doc"
  by (simp add: cache_data_of_def example_externals_def fetch_doc_def)

lemma texts_differ: "fetch_text \<noteq> quiet_text"
  by (simp add: fetch_text_def quiet_text_def)

text \<open>
  Claim C4. Two server parameters with the same command and the same ordered arguments have
  the same cache key, whatever their environments; so the cache read returns the same for
  both and the cache write writes the same file for both.
\<close>

theorem cache_key_ignores_env:
  assumes "command a = command b" and "args a = args b"
  shows "cache_key a = cache_key b
       \<and> get_cached_tools X dir now a = get_cached_tools X dir now b
       \<and> save_tools_cache X dir now a tools = save_tools_cache X dir now b tools"
  using assms by (simp add: cache_key_def cache_file_def get_cached_tools_def save_tools_cache_def)

theorem cache_key_ignores_env_witness:
  "cache_key \<lparr>command = ''uvx'', args = [''mcp-server-fetch''], env = [(''HOME'', ''/root'')]\<rparr>
     = cache_key \<lparr>command = ''uvx'', args = [''mcp-server-fetch''], env = []\<rparr>
   \<and> \<lparr>command = ''uvx'', args = [''mcp-server-fetch''], env = [(''HOME'', ''/root'')]\<rparr>
     \<noteq> \<lparr>command = ''uvx'', args = [''mcp-server-fetch''], env = []\<rparr>"
  using cache_key_ignores_env
    [of "\<lparr>command = ''uvx'', args = [''mcp-server-fetch''], env = [(''HOME'', ''/root'')]\<rparr>"
        "\<lparr>command = ''uvx'', args = [''mcp-server-fetch''], env = []\<rparr>"
        example_externals Map.empty 0 "[]"]
  by simp

text \<open>
  Claim C3. An entry written at \<open>T\<close> is read back unchanged exactly when at most 24 hours
  have passed since \<open>T\<close>, and the read returns \<open>None\<close> exactly when more have passed: so
  at \<open>T\<close> + 23 h 59 min the tools written are returned, at \<open>T\<close> + 24 h 01 min \<open>None\<close>,
  which is also what a missing file gives. The codecs of the libraries are assumed to invert
  each other on the values written.
\<close>

theorem cache_entry_expiry:
  assumes "json_loads X (json_dumps X (cache_data_of X T tools)) = Inr (cache_data_of X T tools)"
    and "fromisoformat X (isoformat X T) = Inr (Naive T)"
    and "\<forall>t\<in>set tools. Tool_init X (model_dump X t) = Inr t"
  shows "(get_cached_tools X (save_tools_cache X dir T sp tools) now sp = Inr (Some tools)
            \<longleftrightarrow> now - T \<le> 24 * 3600 * 1000000)
       \<and> (get_cached_tools X (save_tools_cache X dir T sp tools) now sp = Inr None
            \<longleftrightarrow> now - T > 24 * 3600 * 1000000)
       \<and> get_cached_tools X (save_tools_cache X dir T sp tools)
            (T + (23 * 60 + 59) * 60 * 1000000) sp = Inr (Some tools)
       \<and> get_cached_tools X (save_tools_cache X dir T sp tools)
            (T + (24 * 60 + 1) * 60 * 1000000) sp = Inr None
       \<and> get_cached_tools X (dir(cache_file sp := None)) now sp = Inr None"
  using get_after_save [OF assms, of dir sp]
  by (simp add: timedelta_hours_def CACHE_EXPIRY_HOURS_def get_cached_tools_missing)

theorem cache_entry_expiry_witness:
  "get_cached_tools example_externals
      (save_tools_cache example_externals Map.empty 0 fetch_server [fetch_tool])
      86340000000 fetch_server = Inr (Some [fetch_tool])
   \<and> get_cached_tools example_externals
      (save_tools_cache example_externals Map.empty 0 fetch_server [fetch_tool])
      86460000000 fetch_server = Inr None"
proof -
  have 1: "json_loads example_externals (json_dumps example_externals
             (cache_data_of example_externals 0 [fetch_tool]))
           = Inr (cache_data_of example_externals 0 [fetch_tool])"
    by (simp add: example_cache_data, simp add: example_externals_def)
  have 2: "fromisoformat example_externals (isoformat example_externals 0) = Inr (Naive 0)"
    by (simp add: example_externals_def)
  have 3: "\<forall>t\<in>set [fetch_tool]. Tool_init example_externals (model_dump example_externals t) = Inr t"
    by (simp add: example_externals_def example_roundtrip)
  show ?thesis
    using cache_entry_expiry [OF 1 2 3, of Map.empty fetch_server 0] by simp
qed

lemma replace_slash_append: "replace_slash (x @ y) = replace_slash x @ replace_slash y"
  by (simp add: replace_slash_def)

lemma replace_slash_join:
  "replace_slash (join sep xs) = join (replace_slash sep) (map replace_slash xs)"
  by (induction sep xs rule: join.induct) (simp_all add: replace_slash_append, simp add: replace_slash_def)

lemma replace_slash_Cons:
  "replace_slash (c # s) = (if c = CHR ''/'' then CHR ''-'' else c) # replace_slash s"
  by (simp add: replace_slash_def)

lemma replace_slash_Nil: "replace_slash [] = []"
  by (simp add: replace_slash_def)

lemma cache_key_slash:
  "cache_key sp = replace_slash (command sp) @ ''-'' @ join ''-'' (map replace_slash (args sp))"
  by (simp add: cache_key_def replace_slash_append replace_slash_join replace_slash_Cons replace_slash_Nil)

text \<open>
  Claim C10, the example it gives: command \<open>a\<close> with arguments \<open>[b]\<close> has the key
  \<open>a-b\<close>, command \<open>a-b\<close> with no arguments has the key \<open>a-b-\<close> (the separator
  after the command is always written), so these two do not collide.
\<close>

theorem cache_key_example_counterexample:
  "cache_key \<lparr>command = ''a'', args = [''b''], env = []\<rparr> = ''a-b''
   \<and> cache_key \<lparr>command = ''a-b'', args = [], env = []\<rparr> = ''a-b-''
   \<and> cache_key \<lparr>command = ''a'', args = [''b''], env = []\<rparr>
       \<noteq> cache_key \<lparr>command = ''a-b'', args = [], env = []\<rparr>"
  by (simp add: cache_key_def replace_slash_def)

text \<open>
  Claim C10, amended. The key is not injective on (command, arguments): command \<open>a\<close> with
  arguments \<open>[b, ""]\<close> collides with command \<open>a-b\<close> without arguments, arguments
  \<open>[b-c]\<close> collide with \<open>[b, c]\<close>, and any two servers whose commands and arguments
  agree after replacing \<open>/\<close> by \<open>-\<close> collide. After a collision, a read for one server
  returns what was cached for the other.
\<close>

theorem cache_key_not_injective:
  "(\<exists>a b. (command a, args a) \<noteq> (command b, args b) \<and> cache_key a = cache_key b)
   \<and> cache_key \<lparr>command = ''a'', args = [''b'', ''''], env = []\<rparr>
       = cache_key \<lparr>command = ''a-b'', args = [], env = []\<rparr>
   \<and> cache_key \<lparr>command = ''a'', args = [''b-c''], env = []\<rparr>
       = cache_key \<lparr>command = ''a'', args = [''b'', ''c''], env = []\<rparr>
   \<and> (replace_slash (command a) = replace_slash (command b)
        \<and> map replace_slash (args a) = map replace_slash (args b) \<longrightarrow> cache_key a = cache_key b)
   \<and> (cache_key a = cache_key b \<longrightarrow>
        get_cached_tools X (save_tools_cache X dir T a tools) now b
          = get_cached_tools X (save_tools_cache X dir T a tools) now a)"
proof -
  have ex: "cache_key \<lparr>command = ''a'', args = [''b-c''], env = []\<rparr>
       = cache_key \<lparr>command = ''a'', args = [''b'', ''c''], env = []\<rparr>"
    by (simp add: cache_key_def)
  have "(command \<lparr>command = ''a'', args = [''b-c''], env = []\<rparr>, args \<lparr>command = ''a'', args = [''b-c''], env = []\<rparr>)
      \<noteq> (command \<lparr>command = ''a'', args = [''b'', ''c''], env = []\<rparr>, args \<lparr>command = ''a'', args = [''b'', ''c''], env = []\<rparr>)"
    by simp
  with ex have 1: "\<exists>a b. (command a, args a) \<noteq> (command b, args b) \<and> cache_key a = cache_key b"
    by blast
  have 2: "cache_key \<lparr>command = ''a'', args = [''b'', ''''], env = []\<rparr>
       = cache_key \<lparr>command = ''a-b'', args = [], env = []\<rparr>"
    by (simp add: cache_key_def)
  have 3: "replace_slash (command a) = replace_slash (command b)
        \<and> map replace_slash (args a) = map replace_slash (args b) \<longrightarrow> cache_key a = cache_key b"
    by (simp add: cache_key_slash)
  have 4: "cache_key a = cache_key b \<longrightarrow>
        get_cached_tools X (save_tools_cache X dir T a tools) now b
          = get_cached_tools X (save_tools_cache X dir T a tools) now a"
    by (simp add: get_cached_tools_def cache_file_def)
  from 1 2 ex 3 4 show ?thesis by blast
qed

theorem cache_key_not_injective_witness:
  "cache_key \<lparr>command = ''/usr/bin/node'', args = [''srv/main.js''], env = []\<rparr>
     = cache_key \<lparr>command = ''-usr-bin/node'', args = [''srv-main.js''], env = []\<rparr>
   \<and> get_cached_tools example_externals
        (save_tools_cache example_externals Map.empty 0
           \<lparr>command = ''uvx'', args = [''mcp-server/fetch''], env = []\<rparr> [fetch_tool])
        3600000000 \<lparr>command = ''uvx'', args = [''mcp-server-fetch''], env = []\<rparr>
      = Inr (Some [fetch_tool])"
proof -
  let ?a = "\<lparr>command = ''/usr/bin/node'', args = [''srv/main.js''], env = []\<rparr>"
  let ?b = "\<lparr>command = ''-usr-bin/node'', args = [''srv-main.js''], env = []\<rparr>"
  let ?c = "\<lparr>command = ''uvx'', args = [''mcp-server/fetch''], env = []\<rparr>"
  let ?d = "\<lparr>command = ''uvx'', args = [''mcp-server-fetch''], env = []\<rparr>"
  have slashes: "replace_slash (command ?a) = replace_slash (command ?b)
      \<and> map replace_slash (args ?a) = map replace_slash (args ?b)"
    by (simp add: replace_slash_def)
  have keys: "cache_key ?c = cache_key ?d"
    by (simp add: cache_key_def replace_slash_def)
  have own: "get_cached_tools example_externals
        (save_tools_cache example_externals Map.empty 0 ?c [fetch_tool]) 3600000000 ?c
      = Inr (Some [fetch_tool])"
    by (rule trans [OF get_after_save])
       (simp_all add: example_cache_data timedelta_hours_def CACHE_EXPIRY_HOURS_def,
        simp_all add: example_externals_def example_roundtrip)
  have first: "cache_key ?a = cache_key ?b"
    using cache_key_not_injective [of ?a ?b] slashes by blast
  have second: "get_cached_tools example_externals
        (save_tools_cache example_externals Map.empty 0 ?c [fetch_tool]) 3600000000 ?d
      = get_cached_tools example_externals
        (save_tools_cache example_externals Map.empty 0 ?c [fetch_tool]) 3600000000 ?c"
    using cache_key_not_injective [of ?c ?d example_externals Map.empty 0 "[fetch_tool]" 3600000000] keys
    by blast
  from first second own show ?thesis by simp
qed


section \<open>Properties of tool discovery\<close>


lemma discover_server_hit:
  "get_cached_tools X (cache w) (fst instants) sp = Inr (Some (t # ts)) \<Longrightarrow>
     snd (discover_server X instants w sp) = w"
  by (simp add: discover_server_def)

lemma discover_server_miss:
  "get_cached_tools X (cache w) (fst instants) sp = Inr None
     \<or> get_cached_tools X (cache w) (fst instants) sp = Inr (Some []) \<Longrightarrow>
     sessions (snd (discover_server X instants w sp)) = sessions w @ [sp]"
  by (auto simp: discover_server_def Let_def split: sum.splits)

lemma discover_server_sessions:
  "sessions (snd (discover_server X instants w sp)) = sessions w
   \<or> sessions (snd (discover_server X instants w sp)) = sessions w @ [sp]"
  by (auto simp: discover_server_def Let_def split: sum.splits)

lemma convert_loop_sessions:
  "\<exists>opened. sessions (snd (convert_loop X clock k w acc sps)) = sessions w @ opened
      \<and> subseq opened sps"
proof (induction sps arbitrary: k w acc)
  case Nil
  then show ?case by simp
next
  case (Cons sp sps)
  obtain r w' where step: "discover_server X (clock k) w sp = (r, w')"
    by (cases "discover_server X (clock k) w sp")
  from discover_server_sessions [of X "clock k" w sp] step
  have w': "sessions w' = sessions w \<or> sessions w' = sessions w @ [sp]" by simp
  show ?case
  proof (cases r)
    case (Inl e)
    with step have "snd (convert_loop X clock k w acc (sp # sps)) = w'" by simp
    moreover have "subseq [] (sp # sps)" "subseq [sp] (sp # sps)" by simp_all
    ultimately show ?thesis using w' by (metis append_Nil2)
  next
    case (Inr ts)
    with step have eq: "convert_loop X clock k w acc (sp # sps)
        = convert_loop X clock (Suc k) w' (acc @ ts) sps" by simp
    from Cons.IH [of "Suc k" w' "acc @ ts"] obtain opened where
      o: "sessions (snd (convert_loop X clock (Suc k) w' (acc @ ts) sps)) = sessions w' @ opened"
         "subseq opened sps" by blast
    from w' show ?thesis
    proof
      assume "sessions w' = sessions w"
      with o eq have "sessions (snd (convert_loop X clock k w acc (sp # sps))) = sessions w @ opened"
        by simp
      moreover from o(2) have "subseq opened (sp # sps)" by (rule list_emb_Cons)
      ultimately show ?thesis by blast
    next
      assume "sessions w' = sessions w @ [sp]"
      with o eq have "sessions (snd (convert_loop X clock k w acc (sp # sps))) = sessions w @ (sp # opened)"
        by simp
      moreover from o(2) have "subseq (sp # opened) (sp # sps)" by simp
      ultimately show ?thesis by blast
    qed
  qed
qed

lemma convert_loop_all_hits:
  "\<forall>i<length sps. \<exists>t ts. get_cached_tools X (cache w) (fst (clock (k + i))) (sps ! i) = Inr (Some (t # ts))
    \<Longrightarrow> snd (convert_loop X clock k w acc sps) = w"
proof (induction sps arbitrary: k acc)
  case Nil
  then show ?case by simp
next
  case (Cons sp sps)
  from Cons.prems have "\<exists>t ts. get_cached_tools X (cache w) (fst (clock k)) sp = Inr (Some (t # ts))"
    by (metis add.right_neutral length_greater_0_conv list.discI nth_Cons_0)
  then have here: "snd (discover_server X (clock k) w sp) = w"
    by (auto dest: discover_server_hit)
  have rest: "\<forall>i<length sps. \<exists>t ts. get_cached_tools X (cache w) (fst (clock (Suc k + i))) (sps ! i) = Inr (Some (t # ts))"
  proof (intro allI impI)
    fix i assume "i < length sps"
    then have "Suc i < length (sp # sps)" by simp
    with Cons.prems have "\<exists>t ts. get_cached_tools X (cache w) (fst (clock (k + Suc i))) ((sp # sps) ! Suc i) = Inr (Some (t # ts))"
      by blast
    then show "\<exists>t ts. get_cached_tools X (cache w) (fst (clock (Suc k + i))) (sps ! i) = Inr (Some (t # ts))"
      by simp
  qed
  obtain r w' where step: "discover_server X (clock k) w sp = (r, w')"
    by (cases "discover_server X (clock k) w sp")
  with here have [simp]: "w' = w" by simp
  show ?case
  proof (cases r)
    case (Inl e)
    with step show ?thesis by simp
  next
    case (Inr ts)
    with step Cons.IH [OF rest] show ?thesis by simp
  qed
qed


lemma example_get_fetch:
  "get_cached_tools example_externals (cache fetch_world) 3600000000 fetch_server
     = Inr (Some [fetch_tool])"
  by (simp add: get_cached_tools_def fetch_world_def example_externals_def fetch_doc_def
      example_roundtrip timedelta_hours_def CACHE_EXPIRY_HOURS_def)

lemma example_get_quiet:
  "get_cached_tools example_externals (cache quiet_world) 3600000000 quiet_server
     = Inr (Some [])"
  by (simp add: get_cached_tools_def quiet_world_def example_externals_def quiet_doc_def
      texts_differ [symmetric] timedelta_hours_def CACHE_EXPIRY_HOURS_def)

lemma convert_loop_append:
  "convert_loop X clock k w acc (pre @ rest) =
     (case convert_loop X clock k w acc pre of
        (Inl e, w') \<Rightarrow> (Inl e, w')
      | (Inr acc', w') \<Rightarrow> convert_loop X clock (k + length pre) w' acc' rest)"
  by (induction pre arbitrary: k w acc) (auto split: prod.splits sum.splits)




lemma example_files_differ: "cache_file quiet_server \<noteq> cache_file fetch_server"
  by (simp add: cache_file_def cache_key_def replace_slash_def quiet_server_def fetch_server_def)

lemma example_create_fetch:
  "create_langchain_tool example_externals fetch_tool fetch_server
     = Inr \<lparr>mcp_name = ''fetch'', mcp_description = Some ''Fetch a URL'', args_schema = (),
            mcp_server_params = fetch_server\<rparr>"
  by (simp add: create_langchain_tool_def example_externals_def fetch_tool_def)






lemma comprehension_total:
  "\<forall>x\<in>set xs. \<exists>y. f x = Inr y \<Longrightarrow> \<exists>ys. comprehension f xs = Inr ys"
proof (induction xs)
  case Nil
  then show ?case by simp
next
  case (Cons x xs)
  then obtain y ys where "f x = Inr y" "comprehension f xs = Inr ys" by auto
  then show ?case by simp
qed

lemma discover_server_absent:
  assumes "cache w (cache_file sp) = None"
    and "list_tools X sp = Inr tools"
    and "\<forall>t\<in>set tools. \<exists>m. jsonschema_to_pydantic X (inputSchema t) = Inr m"
  shows "\<exists>ts. discover_server X instants w sp
           = (Inr ts, \<lparr>cache = save_tools_cache X (cache w) (snd instants) sp tools,
                        sessions = sessions w @ [sp]\<rparr>)"
proof -
  have "\<forall>t\<in>set tools. \<exists>y. create_langchain_tool X t sp = Inr y"
    using assms(3) by (auto simp: create_langchain_tool_def)
  then have "\<exists>ts. comprehension (\<lambda>tool. create_langchain_tool X tool sp) tools = Inr ts"
    by (rule comprehension_total)
  then obtain ts where "comprehension (\<lambda>tool. create_langchain_tool X tool sp) tools = Inr ts" ..
  moreover from assms(1) have "get_cached_tools X (cache w) (fst instants) sp = Inr None"
    by (rule get_cached_tools_missing)
  ultimately have "discover_server X instants w sp
           = (Inr ts, \<lparr>cache = save_tools_cache X (cache w) (snd instants) sp tools,
                        sessions = sessions w @ [sp]\<rparr>)"
    using assms(2) by (simp add: discover_server_def Let_def)
  then show ?thesis ..
qed

lemma convert_loop_all_misses:
  assumes "distinct (map cache_file sps)"
    and "\<forall>sp\<in>set sps. cache w (cache_file sp) = None"
    and "\<forall>sp\<in>set sps. \<exists>tools. list_tools X sp = Inr tools
           \<and> (\<forall>t\<in>set tools. \<exists>m. jsonschema_to_pydantic X (inputSchema t) = Inr m)"
  shows "sessions (snd (convert_loop X clock k w acc sps)) = sessions w @ sps"
  using assms
proof (induction sps arbitrary: k w acc)
  case Nil
  then show ?case by simp
next
  case (Cons sp sps)
  from Cons.prems(3) obtain tools where live: "list_tools X sp = Inr tools"
    and models: "\<forall>t\<in>set tools. \<exists>m. jsonschema_to_pydantic X (inputSchema t) = Inr m"
    by auto
  from Cons.prems(2) have absent: "cache w (cache_file sp) = None" by simp
  let ?w' = "\<lparr>cache = save_tools_cache X (cache w) (snd (clock k)) sp tools,
               sessions = sessions w @ [sp]\<rparr>"
  from discover_server_absent [OF absent live models, of "clock k"] obtain ts where
    step: "discover_server X (clock k) w sp = (Inr ts, ?w')" by blast
  have absent': "\<forall>sp'\<in>set sps. cache ?w' (cache_file sp') = None"
  proof
    fix sp' assume in_rest: "sp' \<in> set sps"
    then have "cache_file sp' \<in> cache_file ` set sps" by (rule imageI)
    moreover from Cons.prems(1) have "cache_file sp \<notin> cache_file ` set sps" by simp
    ultimately have "cache_file sp' \<noteq> cache_file sp" by metis
    moreover from in_rest Cons.prems(2) have "cache w (cache_file sp') = None" by simp
    ultimately show "cache ?w' (cache_file sp') = None"
      by (simp add: save_tools_cache_def)
  qed
  from Cons.prems(1) have distinct': "distinct (map cache_file sps)" by simp
  from Cons.prems(3) have live': "\<forall>sp\<in>set sps. \<exists>tools. list_tools X sp = Inr tools
           \<and> (\<forall>t\<in>set tools. \<exists>m. jsonschema_to_pydantic X (inputSchema t) = Inr m)" by simp
  have "sessions (snd (convert_loop X clock (Suc k) ?w' (acc @ ts) sps)) = sessions ?w' @ sps"
    using distinct' absent' live' by (rule Cons.IH)
  with step show ?case by simp
qed

lemma convert_snoc:
  "convert_mcp_to_langchain_tools X clock w (pre @ [sp]) =
     (case convert_mcp_to_langchain_tools X clock w pre of
        (Inl e, w') \<Rightarrow> (Inl e, w')
      | (Inr ts, w') \<Rightarrow>
          (case discover_server X (clock (length pre)) w' sp of
             (Inl e, w'') \<Rightarrow> (Inl e, w'')
           | (Inr ts', w'') \<Rightarrow> (Inr (ts @ ts'), w'')))"
proof -
  obtain r w' where pre: "convert_loop X clock 0 w [] pre = (r, w')"
    by (cases "convert_loop X clock 0 w [] pre")
  show ?thesis
  proof (cases r)
    case (Inl e)
    with pre show ?thesis
      by (simp add: convert_mcp_to_langchain_tools_def convert_loop_append)
  next
    case (Inr ts)
    obtain r' w'' where step: "discover_server X (clock (length pre)) w' sp = (r', w'')"
      by (cases "discover_server X (clock (length pre)) w' sp")
    with pre Inr show ?thesis
      by (cases r') (simp_all add: convert_mcp_to_langchain_tools_def convert_loop_append)
  qed
qed

text \<open>
  Claim C2, as stated, fails where the fresh entry lists no tool: \<open>quiet_server\<close> has an
  entry one hour old with an empty tool list, the cache read returns that empty list, and
  discovery opens a live session to the server all the same.
\<close>

theorem empty_cached_list_counterexample:
  "get_cached_tools example_externals (cache quiet_world) (fst (example_clock 0)) quiet_server
     = Inr (Some [])
   \<and> sessions (snd (convert_mcp_to_langchain_tools example_externals example_clock quiet_world
        [quiet_server])) = [quiet_server]"
  using example_get_quiet
  by (simp add: convert_mcp_to_langchain_tools_def discover_server_def example_clock_def Let_def)
     (simp add: example_externals_def quiet_world_def quiet_server_def fetch_server_def)

text \<open>
  Claim C2, amended. For one server, discovery opens no live session (and changes nothing)
  when the cache read returns a non-empty tool list, and exactly one live session when the
  cache read returns \<open>None\<close> or an empty list. Over a list of servers: the sessions opened
  are a subsequence of the list (at most one per server, in order); none is opened when the
  cache read returns a non-empty list for every server; one is opened for every server, in
  order, when no server of the list has a cache file, the keys differ and the servers
  answer; and a list with one more server behaves as the list followed by the loop body
  for that server, in the world the list left.
\<close>

theorem discovery_live_sessions:
  "(get_cached_tools X (cache w) (fst instants) sp = Inr (Some (t # ts)) \<longrightarrow>
       snd (discover_server X instants w sp) = w)
   \<and> (get_cached_tools X (cache w) (fst instants) sp = Inr None
        \<or> get_cached_tools X (cache w) (fst instants) sp = Inr (Some []) \<longrightarrow>
       sessions (snd (discover_server X instants w sp)) = sessions w @ [sp])
   \<and> (\<exists>opened. sessions (snd (convert_mcp_to_langchain_tools X clock w sps)) = sessions w @ opened
         \<and> subseq opened sps)
   \<and> ((\<forall>i<length sps. \<exists>t ts.
          get_cached_tools X (cache w) (fst (clock i)) (sps ! i) = Inr (Some (t # ts))) \<longrightarrow>
       snd (convert_mcp_to_langchain_tools X clock w sps) = w)
   \<and> (distinct (map cache_file sps)
        \<and> (\<forall>sp\<in>set sps. cache w (cache_file sp) = None)
        \<and> (\<forall>sp\<in>set sps. \<exists>tools. list_tools X sp = Inr tools
              \<and> (\<forall>t\<in>set tools. \<exists>m. jsonschema_to_pydantic X (inputSchema t) = Inr m)) \<longrightarrow>
       sessions (snd (convert_mcp_to_langchain_tools X clock w sps)) = sessions w @ sps)
   \<and> convert_mcp_to_langchain_tools X clock w (pre @ [sp]) =
       (case convert_mcp_to_langchain_tools X clock w pre of
          (Inl e, w') \<Rightarrow> (Inl e, w')
        | (Inr ts, w') \<Rightarrow>
            (case discover_server X (clock (length pre)) w' sp of
               (Inl e, w'') \<Rightarrow> (Inl e, w'')
             | (Inr ts', w'') \<Rightarrow> (Inr (ts @ ts'), w'')))"
proof -
  have hit: "get_cached_tools X (cache w) (fst instants) sp = Inr (Some (t # ts)) \<longrightarrow>
       snd (discover_server X instants w sp) = w"
    using discover_server_hit by blast
  have miss: "get_cached_tools X (cache w) (fst instants) sp = Inr None
        \<or> get_cached_tools X (cache w) (fst instants) sp = Inr (Some []) \<longrightarrow>
       sessions (snd (discover_server X instants w sp)) = sessions w @ [sp]"
    using discover_server_miss by blast
  have bound: "\<exists>opened. sessions (snd (convert_mcp_to_langchain_tools X clock w sps))
         = sessions w @ opened \<and> subseq opened sps"
    unfolding convert_mcp_to_langchain_tools_def by (rule convert_loop_sessions)
  have hits: "(\<forall>i<length sps. \<exists>t ts.
          get_cached_tools X (cache w) (fst (clock i)) (sps ! i) = Inr (Some (t # ts))) \<longrightarrow>
       snd (convert_mcp_to_langchain_tools X clock w sps) = w"
    unfolding convert_mcp_to_langchain_tools_def
    using convert_loop_all_hits [of sps X w clock 0 "[]"] by simp
  have misses: "distinct (map cache_file sps)
        \<and> (\<forall>sp\<in>set sps. cache w (cache_file sp) = None)
        \<and> (\<forall>sp\<in>set sps. \<exists>tools. list_tools X sp = Inr tools
              \<and> (\<forall>t\<in>set tools. \<exists>m. jsonschema_to_pydantic X (inputSchema t) = Inr m)) \<longrightarrow>
       sessions (snd (convert_mcp_to_langchain_tools X clock w sps)) = sessions w @ sps"
    unfolding convert_mcp_to_langchain_tools_def
    using convert_loop_all_misses [of sps w X clock 0 "[]"] by blast
  from hit miss bound hits misses convert_snoc [of X clock w pre sp] show ?thesis
    by (intro conjI)
qed

theorem discovery_live_sessions_witness:
  "sessions (snd (convert_mcp_to_langchain_tools example_externals example_clock fetch_world
      [fetch_server])) = []
   \<and> sessions (snd (discover_server example_externals (example_clock 0) empty_world fetch_server))
      = [fetch_server]
   \<and> sessions (snd (convert_mcp_to_langchain_tools example_externals example_clock empty_world
      [quiet_server, fetch_server])) = [quiet_server, fetch_server]
   \<and> sessions (snd (convert_mcp_to_langchain_tools example_externals example_clock fetch_world
      [fetch_server, quiet_server])) = [quiet_server]"
proof -
  note inst = discovery_live_sessions [where X = example_externals and clock = example_clock]
  note miss_rule = inst [THEN conjunct2, THEN conjunct1, rule_format]
  note hits_rule = inst [THEN conjunct2, THEN conjunct2, THEN conjunct2, THEN conjunct1, THEN mp]
  note misses_rule = inst [THEN conjunct2, THEN conjunct2, THEN conjunct2, THEN conjunct2,
      THEN conjunct1, THEN mp]
  note snoc_rule = discovery_live_sessions [where X = example_externals and clock = example_clock
      and w = fetch_world and pre = "[fetch_server]" and sp = quiet_server,
      THEN conjunct2, THEN conjunct2, THEN conjunct2, THEN conjunct2, THEN conjunct2]
  have hit: "\<forall>i<length [fetch_server]. \<exists>t ts.
      get_cached_tools example_externals (cache fetch_world) (fst (example_clock i))
        ([fetch_server] ! i) = Inr (Some (t # ts))"
    using example_get_fetch by (simp add: example_clock_def)
  have miss: "get_cached_tools example_externals (cache empty_world) (fst (example_clock 0))
      fetch_server = Inr None"
    by (simp add: get_cached_tools_def empty_world_def)
  from hit have 1: "snd (convert_mcp_to_langchain_tools example_externals example_clock fetch_world
      [fetch_server]) = fetch_world"
    by (rule hits_rule)
  from miss have 2: "sessions (snd (discover_server example_externals (example_clock 0)
      empty_world fetch_server)) = sessions empty_world @ [fetch_server]"
    by (intro miss_rule) simp
  have "distinct (map cache_file [quiet_server, fetch_server])
        \<and> (\<forall>sp\<in>set [quiet_server, fetch_server]. cache empty_world (cache_file sp) = None)
        \<and> (\<forall>sp\<in>set [quiet_server, fetch_server]. \<exists>tools. list_tools example_externals sp = Inr tools
              \<and> (\<forall>t\<in>set tools. \<exists>m. jsonschema_to_pydantic example_externals (inputSchema t) = Inr m))"
    using example_files_differ by (simp add: empty_world_def example_externals_def)
  then have 3: "sessions (snd (convert_mcp_to_langchain_tools example_externals example_clock
      empty_world [quiet_server, fetch_server])) = sessions empty_world @ [quiet_server, fetch_server]"
    by (rule misses_rule)
  have pre: "convert_mcp_to_langchain_tools example_externals example_clock fetch_world [fetch_server]
      = (Inr [\<lparr>mcp_name = ''fetch'', mcp_description = Some ''Fetch a URL'', args_schema = (),
            mcp_server_params = fetch_server\<rparr>], fetch_world)"
    using example_get_fetch
    by (simp add: convert_mcp_to_langchain_tools_def discover_server_def example_clock_def
        example_create_fetch)
  have absent: "get_cached_tools example_externals (cache fetch_world)
      (fst (example_clock (length [fetch_server]))) quiet_server = Inr None"
    using example_files_differ by (simp add: get_cached_tools_def fetch_world_def)
  then have body: "sessions (snd (discover_server example_externals
      (example_clock (length [fetch_server])) fetch_world quiet_server))
      = sessions fetch_world @ [quiet_server]"
    by (intro miss_rule) simp
  obtain r w'' where step: "discover_server example_externals
      (example_clock (length [fetch_server])) fetch_world quiet_server = (r, w'')"
    by (cases "discover_server example_externals
      (example_clock (length [fetch_server])) fetch_world quiet_server")
  with body have opened: "sessions w'' = sessions fetch_world @ [quiet_server]" by simp
  have "convert_mcp_to_langchain_tools example_externals example_clock fetch_world
      ([fetch_server] @ [quiet_server]) = (case r of Inl e \<Rightarrow> (Inl e, w'')
        | Inr ts' \<Rightarrow> (Inr ([\<lparr>mcp_name = ''fetch'', mcp_description = Some ''Fetch a URL'',
            args_schema = (), mcp_server_params = fetch_server\<rparr>] @ ts'), w''))"
    by (simp only: snoc_rule pre step prod.case sum.case)
  then have "snd (convert_mcp_to_langchain_tools example_externals example_clock fetch_world
      ([fetch_server] @ [quiet_server])) = w''"
    by (cases r) simp_all
  with opened have 4: "sessions (snd (convert_mcp_to_langchain_tools example_externals
      example_clock fetch_world [fetch_server, quiet_server])) = sessions fetch_world @ [quiet_server]"
    by simp
  from 1 2 3 4 show ?thesis by (simp add: fetch_world_def empty_world_def)
qed


section \<open>Properties of tool invocation\<close>

text \<open>
  Where the session is entered, the handshake goes through and the call returns a result:
  with \<open>isError\<close> set, the \<open>ToolException\<close> holding the content is raised inside both
  blocks and leaves through their exits; else the content is returned. The tool is called
  at most once.
\<close>

lemma arun_outcome:
  "(enter_stdio S (mcp_server_params self) = None
      \<and> enter_session S (mcp_server_params self) = None
      \<and> initialize S (mcp_server_params self) = None
      \<and> call_tool S (mcp_server_params self) (mcp_name self) kwargs = Inr r \<longrightarrow>
        fst (arun S self kwargs)
          = (if isError r then Inl (exit_stdio S (exit_session S (ToolException (content r))))
             else Inr (content r))
        \<and> snd (arun S self kwargs)
          = [Entered (mcp_server_params self), Initialized, Called (mcp_name self) kwargs, Exited])
   \<and> length (filter is_call (snd (arun S self kwargs))) \<le> 1"
  by (auto simp: arun_def split: option.splits sum.splits)

text \<open>
  Claim C7, at a failing input. The server answers the call of \<open>search\<close> with a result that
  has \<open>isError\<close> set and the content \<open>Unknown tool\<close>. The \<open>ToolException\<close> with that
  content is raised inside the two \<open>async with\<close> blocks, whose exits re-raise it inside
  exception groups: what reaches the caller of \<open>_arun\<close> is an exception group holding an
  exception group holding the \<open>ToolException\<close>, not the \<open>ToolException\<close>. The tool was
  called once.
\<close>

theorem arun_wrapped_exception:
  "call_tool example_tool_server (mcp_server_params stale_mcp_tool) (mcp_name stale_mcp_tool)
       (PDict []) = Inr \<lparr>isError = True, content = ''Unknown tool''\<rparr>
   \<and> fst (arun example_tool_server stale_mcp_tool (PDict []))
       = Inl (ExceptionGroup [ExceptionGroup [ToolException ''Unknown tool'']])
   \<and> fst (arun example_tool_server stale_mcp_tool (PDict []))
       \<noteq> Inl (ToolException ''Unknown tool'')
   \<and> snd (arun example_tool_server stale_mcp_tool (PDict []))
       = [Entered fetch_server, Initialized, Called ''search'' (PDict []), Exited]"
  by (simp add: arun_def example_tool_server_def stale_mcp_tool_def)

section \<open>Properties of the thread store\<close>

lemma init_db_working: "working (init_db db) = Some (rows_of (working db))"
  by (simp add: init_db_def commit_def create_table_if_not_exists_def rows_of_def)

lemma init_db_committed: "committed (init_db db) = Some (rows_of (working db))"
  by (simp add: init_db_def commit_def create_table_if_not_exists_def rows_of_def)

lemma internal_save_id_result:
  "internal_save_id db thread_id
     = Inr \<lparr>committed = Some [(1, thread_id)], working = Some [(1, thread_id)]\<rparr>"
  by (simp add: internal_save_id_def delete_all_def insert_thread_id_def init_db_working
      commit_def next_id_def init_db_def create_table_if_not_exists_def)

lemma get_last_id_rows:
  "get_last_id d u =
     (Inr (case rows_of d of [] \<Rightarrow> uuid_hex u | r # rs \<Rightarrow> snd r), Some (rows_of d))"
  by (simp add: get_last_id_def Let_def select_thread_id_def init_db_working init_db_committed
      close_def connect_def split: list.splits)

text \<open>
  Claim C5. Saving a thread id \<open>t\<close> and then reading the last id returns \<open>t\<close>; after a
  save the table holds the one row of \<open>t\<close>, whatever it held before, also when the save
  runs on a connection passed in. Inside the save, the deletion and the insertion change
  only the connection's uncommitted view: the file keeps its content until the one commit
  that follows them.
\<close>

theorem save_then_get:
  "save_id d t = (None, Some [(1, t)])
   \<and> fst (get_last_id (snd (save_id d t)) u) = Inr t
   \<and> length (rows_of (snd (save_id d t))) = 1
   \<and> save_id_on db t = Inr \<lparr>committed = Some [(1, t)], working = Some [(1, t)]\<rparr>
   \<and> (\<exists>db1 db2. delete_all (init_db db) = Inr db1 \<and> insert_thread_id t db1 = Inr db2
         \<and> working db1 = Some [] \<and> committed db1 = committed (init_db db)
         \<and> working db2 = Some [(1, t)] \<and> committed db2 = committed (init_db db)
         \<and> internal_save_id db t = Inr (commit db2))"
proof -
  have 1: "save_id d t = (None, Some [(1, t)])"
    by (simp add: save_id_def internal_save_id_result close_def)
  have 2: "fst (get_last_id (snd (save_id d t)) u) = Inr t"
    by (simp add: 1 get_last_id_rows rows_of_def)
  have 3: "length (rows_of (snd (save_id d t))) = 1"
    by (simp add: 1 rows_of_def)
  have 4: "save_id_on db t = Inr \<lparr>committed = Some [(1, t)], working = Some [(1, t)]\<rparr>"
    by (simp add: save_id_on_def internal_save_id_result)
  have 5: "\<exists>db1 db2. delete_all (init_db db) = Inr db1 \<and> insert_thread_id t db1 = Inr db2
         \<and> working db1 = Some [] \<and> committed db1 = committed (init_db db)
         \<and> working db2 = Some [(1, t)] \<and> committed db2 = committed (init_db db)
         \<and> internal_save_id db t = Inr (commit db2)"
    by (simp add: internal_save_id_def delete_all_def insert_thread_id_def init_db_working
        next_id_def)
  from 1 2 3 4 5 show ?thesis by blast
qed

lemma length_uuid_hex: "length (uuid_hex u) = 32"
  by (simp add: uuid_hex_def)

lemma hexdigit_inj: "m < 16 \<Longrightarrow> n < 16 \<Longrightarrow> hexdigit m = hexdigit n \<Longrightarrow> m = n"
proof -
  assume m: "m < 16" and n: "n < 16" and eq: "hexdigit m = hexdigit n"
  have d: "distinct ''0123456789abcdef''" by simp
  have l: "length ''0123456789abcdef'' = 16" by simp
  from eq have "''0123456789abcdef'' ! m = ''0123456789abcdef'' ! n"
    by (simp only: hexdigit_def)
  with nth_eq_iff_index_eq [OF d, of m n] m n l show "m = n" by simp
qed

lemma uuid_hex_nth: "i < 32 \<Longrightarrow> uuid_hex u ! i = hexdigit (nibble u (31 - i))"
  by (simp add: uuid_hex_def nibble_def del: upt.simps)

lemma nibble_eq:
  assumes "uuid_hex u = uuid_hex v" and "j < 32"
  shows "nibble u j = nibble v j"
proof -
  from assms(2) have i: "31 - j < 32" and twice: "31 - (31 - j) = j" by simp_all
  from assms(1) have "uuid_hex u ! (31 - j) = uuid_hex v ! (31 - j)" by simp
  with uuid_hex_nth [OF i] twice have "hexdigit (nibble u j) = hexdigit (nibble v j)" by simp
  moreover have "nibble u j < 16" "nibble v j < 16" by (simp_all add: nibble_def)
  ultimately show ?thesis by (rule hexdigit_inj [rotated 2])
qed

lemma nibble_bit: "b < 4 \<Longrightarrow> bit (nibble u j) b = bit u (4 * j + b)"
proof -
  assume b: "b < 4"
  have "nibble u j = take_bit 4 (unat (drop_bit (4 * j) u))"
    by (simp add: nibble_def take_bit_eq_mod)
  then have "bit (nibble u j) b = bit (unat (drop_bit (4 * j) u)) b"
    using b by (simp add: bit_take_bit_iff)
  also have "\<dots> = bit (drop_bit (4 * j) u) b"
    by (simp add: bit_unsigned_iff)
  also have "\<dots> = bit u (4 * j + b)"
    by (simp add: bit_drop_bit_eq)
  finally show ?thesis .
qed

lemma uuid_hex_inj: "uuid_hex u = uuid_hex v \<Longrightarrow> u = v"
proof (rule bit_word_eqI)
  fix k assume eq: "uuid_hex u = uuid_hex v" and "k < LENGTH(128)"
  then have k: "k < 128" by simp
  then have j: "k div 4 < 32" and b: "k mod 4 < 4" by simp_all
  from nibble_eq [OF eq j] have "bit (nibble u (k div 4)) (k mod 4) = bit (nibble v (k div 4)) (k mod 4)"
    by simp
  with nibble_bit [OF b] show "bit u k = bit v k" by simp
qed


text \<open>
  Claim C6. Where the store holds no row, reading the last id returns the identifier just
  drawn: the 32 hexadecimal digits of the 128-bit value, which determine that value (two
  draws give the same identifier only if they are the same value). The store still holds
  no row afterwards, so the identifier is not in it.
\<close>

theorem get_last_id_mints_without_persisting:
  assumes "rows_of d = []"
  shows "fst (get_last_id d u) = Inr (uuid_hex u)
       \<and> length (uuid_hex u) = 32
       \<and> (uuid_hex u = uuid_hex v \<longleftrightarrow> u = v)
       \<and> (fst (get_last_id d u) = fst (get_last_id d v) \<longleftrightarrow> u = v)
       \<and> rows_of (snd (get_last_id d u)) = []
       \<and> uuid_hex u \<notin> snd ` set (rows_of (snd (get_last_id d u)))"
proof -
  have inj: "uuid_hex u = uuid_hex v \<longleftrightarrow> u = v"
    using uuid_hex_inj by blast
  with assms show ?thesis
    by (simp add: get_last_id_rows rows_of_def length_uuid_hex)
qed

theorem get_last_id_mints_without_persisting_witness:
  "fst (get_last_id None 0x0123456789abcdef0123456789abcdef)
     = Inr ''0123456789abcdef0123456789abcdef''
   \<and> rows_of (snd (get_last_id None 0x0123456789abcdef0123456789abcdef)) = []"
proof -
  have hex: "uuid_hex 0x0123456789abcdef0123456789abcdef = ''0123456789abcdef0123456789abcdef''"
    by (simp add: uuid_hex_def hexdigit_def upt_rec)
  have "rows_of None = []" by (simp add: rows_of_def)
  from get_last_id_mints_without_persisting [OF this, of "0x0123456789abcdef0123456789abcdef"] hex
  show ?thesis by simp
qed

section \<open>Properties of the renderer\<close>

lemma render_stream_append:
  "render_stream S out (cs @ ds) =
     (case render_stream S out cs of
        (out', None) \<Rightarrow> render_stream S out' ds
      | (out', Some e) \<Rightarrow> (out', Some e))"
  by (induction cs arbitrary: out) (auto split: sum.splits)

lemma render_stream_extends: "\<exists>suffix. fst (render_stream S out cs) = out @ suffix"
proof (induction cs arbitrary: out)
  case Nil
  then show ?case by simp
next
  case (Cons c cs)
  show ?case
  proof (cases "render_chunk S c")
    case (Inl e)
    then show ?thesis by simp
  next
    case (Inr ps)
    from Cons [of "out @ ps"] obtain suffix where
      "fst (render_stream S (out @ ps) cs) = (out @ ps) @ suffix" by blast
    with Inr show ?thesis by simp
  qed
qed

lemma render_stream_no_error:
  "\<forall>c\<in>set cs. render_chunk S c = Inr (f c) \<Longrightarrow>
     render_stream S out cs = (out @ concat (map f cs), None)"
  by (induction cs arbitrary: out) auto

lemma messages_chunk_no_error: "\<exists>ps. render_chunk S (MessagesChunk m) = Inr ps"
  by (cases m) auto

text \<open>
  What the loop prints: a message chunk whose content is a string prints that string; one
  whose content is a list with a dictionary first that has a \<open>text\<close> entry prints that
  text; every other list prints nothing; a message chunk never raises. A stream whose
  chunks all render is printed chunk by chunk in the order of the stream, after what was
  printed before.
\<close>

lemma render_stream_in_order:
  "render_chunk S (MessagesChunk (AIMessageChunk (StrContent s) tcs)) = Inr [s]
   \<and> (map_of d ''text'' = Some v \<longrightarrow>
        render_chunk S (MessagesChunk (AIMessageChunk (ListContent (PDict d # rest)) tcs))
          = Inr [to_str S v])
   \<and> (map_of d ''text'' = None \<longrightarrow>
        render_chunk S (MessagesChunk (AIMessageChunk (ListContent (PDict d # rest)) tcs))
          = Inr [])
   \<and> ((\<forall>d. x \<noteq> PDict d) \<longrightarrow>
        render_chunk S (MessagesChunk (AIMessageChunk (ListContent (x # rest)) tcs)) = Inr [])
   \<and> render_chunk S (MessagesChunk (AIMessageChunk (ListContent []) tcs)) = Inr []
   \<and> (\<exists>ps. render_chunk S (MessagesChunk m) = Inr ps)
   \<and> ((\<forall>c\<in>set cs. render_chunk S c = Inr (f c)) \<longrightarrow>
        render_stream S out cs = (out @ concat (map f cs), None))
   \<and> render_stream S out (cs @ ds) =
        (case render_stream S out cs of
           (out', None) \<Rightarrow> render_stream S out' ds
         | (out', Some e) \<Rightarrow> (out', Some e))
   \<and> (\<exists>suffix. fst (render_stream S out cs) = out @ suffix)"
proof -
  have other: "(\<forall>d. x \<noteq> PDict d) \<longrightarrow>
        render_chunk S (MessagesChunk (AIMessageChunk (ListContent (x # rest)) tcs)) = Inr []"
    by (cases x) auto
  have order: "(\<forall>c\<in>set cs. render_chunk S c = Inr (f c)) \<longrightarrow>
        render_stream S out cs = (out @ concat (map f cs), None)"
    using render_stream_no_error by blast
  show ?thesis
    using other order messages_chunk_no_error [of S m] render_stream_append [of S out cs ds]
      render_stream_extends [of S out cs]
    by simp
qed

text \<open>
  Claim C8, at a failing input. The stream of a run whose model answers \<open>Hello world\<close> in
  two tokens: the two message chunks, then the final value, which \<open>astream\<close> yields as the
  tuple \<open>("values", state)\<close>. The loop prints \<open>Hello\<close> and \<open> world\<close> in this order and then
  nothing for the final value: the branch that prints the blank-line separator tests for a
  dictionary with a \<open>messages\<close> key, which the tuple is not. After the loop only the line
  end of the last \<open>print()\<close> follows.
\<close>

theorem final_value_prints_no_separator:
  "render_stream example_str []
     [MessagesChunk (AIMessageChunk (StrContent ''Hello'') []),
      MessagesChunk (AIMessageChunk (StrContent '' world'') []),
      ValuesChunk [OtherMessage, AIMessage (StrContent ''Hello world'') []]]
     = ([''Hello'', '' world''], None)
   \<and> render example_str
     [MessagesChunk (AIMessageChunk (StrContent ''Hello'') []),
      MessagesChunk (AIMessageChunk (StrContent '' world'') []),
      ValuesChunk [OtherMessage, AIMessage (StrContent ''Hello world'') []]]
     = ([''Hello'', '' world'', ''\<newline>''], None)
   \<and> render_chunk example_str (ValuesChunk [OtherMessage, AIMessage (StrContent ''Hello world'') []])
     = Inr []
   \<and> render_chunk example_str (DictChunk [''messages'']) = Inr [''\<newline>\<newline>'']"
  by (simp add: render_def)

lemma render_values_last:
  "render_chunk S (ValuesChunk (ms @ [AIMessage c (tc # tcs)]))
     = Inr (''\<newline>\<newline>Tool Calls:\<newline>''
            # map (\<lambda>tc. join ''\<newline>'' (tool_call_lines S tc) @ ''\<newline>'') (tc # tcs))"
  by (cases ms) simp_all

lemma args_lines_no_error_line: "filter (prefix ''  Error: '') (args_lines S a) = []"
  by (cases a) (auto simp: filter_empty_conv)

lemma args_lines_indented: "\<forall>l\<in>set (args_lines S a). prefix ''    '' l"
  by (cases a) auto

text \<open>
  Claim C9. For the last message of a value chunk, an assistant message with tool calls, the
  renderer prints the heading and then one block per call, its lines joined by line ends.
  The block of a tool call starts with the line of the tool's name. A call carries
  an error when its \<open>error\<close> entry is present and true in Python's sense (not \<open>None\<close>, not
  empty): then the lines after the name hold exactly one \<open>Error:\<close> line, the second line of
  the block, with the error; else they hold none. Then comes the \<open>Args:\<close> line, followed
  to the end of the block by one indented line per argument pair of a dictionary, or by the
  argument string itself.
\<close>

theorem tool_call_block:
  "hd (tool_call_lines S tc) = ''  '' @ to_str S (dict_get tc ''name'' (PStr ''Tool''))
   \<and> (map_of tc ''name'' = Some (PStr n) \<longrightarrow> hd (tool_call_lines S tc) = ''  '' @ n)
   \<and> filter (prefix ''  Error: '') (tl (tool_call_lines S tc))
       = (if truthy (dict_get tc ''error'' PNone)
          then [''  Error: '' @ to_str S (dict_get tc ''error'' PNone)] else [])
   \<and> (map_of tc ''error'' = Some (PStr e) \<and> e \<noteq> [] \<longrightarrow>
        tool_call_lines S tc ! 1 = ''  Error: '' @ e)
   \<and> (map_of tc ''error'' = None \<longrightarrow>
        (\<forall>l\<in>set (tl (tool_call_lines S tc)). \<not> prefix ''  Error: '' l))
   \<and> (\<exists>front. tool_call_lines S tc = front @ ''  Args:'' # args_lines S (dict_get tc ''args'' PNone)
         \<and> length front = (if truthy (dict_get tc ''error'' PNone) then 2 else 1))
   \<and> (map_of tc ''args'' = Some (PDict kvs) \<longrightarrow>
        args_lines S (dict_get tc ''args'' PNone)
          = map (\<lambda>kv. ''    '' @ fst kv @ '': '' @ to_str S (snd kv)) kvs)
   \<and> (map_of tc ''args'' = Some (PStr a) \<longrightarrow>
        args_lines S (dict_get tc ''args'' PNone) = [''    '' @ a])
   \<and> render_chunk S (ValuesChunk (ms @ [AIMessage c (tc # tcs)]))
       = Inr (''\<newline>\<newline>Tool Calls:\<newline>''
              # map (\<lambda>tc. join ''\<newline>'' (tool_call_lines S tc) @ ''\<newline>'') (tc # tcs))"
proof -
  have shape: "\<exists>front. tool_call_lines S tc
        = front @ ''  Args:'' # args_lines S (dict_get tc ''args'' PNone)
         \<and> length front = (if truthy (dict_get tc ''error'' PNone) then 2 else 1)"
    by (simp add: tool_call_lines_def)
  have errs: "filter (prefix ''  Error: '') (tl (tool_call_lines S tc))
       = (if truthy (dict_get tc ''error'' PNone)
          then [''  Error: '' @ to_str S (dict_get tc ''error'' PNone)] else [])"
    by (simp add: tool_call_lines_def args_lines_no_error_line)
  have none: "map_of tc ''error'' = None \<longrightarrow>
        (\<forall>l\<in>set (tl (tool_call_lines S tc)). \<not> prefix ''  Error: '' l)"
    using errs by (auto simp: dict_get_def filter_empty_conv)
  have front: "hd (tool_call_lines S tc) = ''  '' @ to_str S (dict_get tc ''name'' (PStr ''Tool''))
      \<and> (map_of tc ''name'' = Some (PStr n) \<longrightarrow> hd (tool_call_lines S tc) = ''  '' @ n)
      \<and> (map_of tc ''error'' = Some (PStr e) \<and> e \<noteq> [] \<longrightarrow>
           tool_call_lines S tc ! 1 = ''  Error: '' @ e)"
    by (simp add: tool_call_lines_def dict_get_def)
  have rest: "(map_of tc ''args'' = Some (PDict kvs) \<longrightarrow>
        args_lines S (dict_get tc ''args'' PNone)
          = map (\<lambda>kv. ''    '' @ fst kv @ '': '' @ to_str S (snd kv)) kvs)
      \<and> (map_of tc ''args'' = Some (PStr a) \<longrightarrow>
        args_lines S (dict_get tc ''args'' PNone) = [''    '' @ a])"
    by (simp add: dict_get_def)
  from front errs none shape rest render_values_last [of S ms c tc tcs] show ?thesis
    by blast
qed

theorem tool_call_block_witness:
  "filter (prefix ''  Error: '')
     (tl (tool_call_lines example_str
        [(''name'', PStr ''fetch''), (''args'', PDict [(''url'', PStr ''http://example.org'')]),
         (''error'', PStr ''timed out'')]))
     = [''  Error: timed out'']
   \<and> tool_call_lines example_str
        [(''name'', PStr ''fetch''), (''args'', PDict [(''url'', PStr ''http://example.org'')]),
         (''error'', PStr ''timed out'')] ! 1 = ''  Error: timed out''
   \<and> filter (prefix ''  Error: '')
     (tl (tool_call_lines example_str [(''name'', PStr ''fetch''), (''args'', PStr ''{url'')]))
     = []
   \<and> args_lines example_str
        (dict_get [(''name'', PStr ''fetch''), (''args'', PStr ''{url'')] ''args'' PNone)
     = [''    {url'']"
proof -
  let ?tc = "[(''name'', PStr ''fetch''), (''args'', PDict [(''url'', PStr ''http://example.org'')]),
      (''error'', PStr ''timed out'')]"
  let ?tc2 = "[(''name'', PStr ''fetch''), (''args'', PStr ''{url'')]"
  note t1 = tool_call_block [where S = example_str and tc = ?tc and e = "''timed out''"]
  note t2 = tool_call_block [where S = example_str and tc = ?tc2 and a = "''{url''"]
  have 1: "filter (prefix ''  Error: '') (tl (tool_call_lines example_str ?tc))
      = [''  Error: timed out'']"
    using t1 [THEN conjunct2, THEN conjunct2, THEN conjunct1] by (simp add: dict_get_def)
  have 2: "tool_call_lines example_str ?tc ! 1 = ''  Error: timed out''"
    using t1 [THEN conjunct2, THEN conjunct2, THEN conjunct2, THEN conjunct1] by simp
  have 3: "filter (prefix ''  Error: '') (tl (tool_call_lines example_str ?tc2)) = []"
    using t2 [THEN conjunct2, THEN conjunct2, THEN conjunct1] by (simp add: dict_get_def)
  have 4: "args_lines example_str (dict_get ?tc2 ''args'' PNone) = [''    {url'']"
    using t2 [THEN conjunct2, THEN conjunct2, THEN conjunct2, THEN conjunct2, THEN conjunct2,
        THEN conjunct2, THEN conjunct2] by simp
  from 1 2 3 4 show ?thesis by blast
qed

end
